theory Spec2Isabelle
  imports Main
begin

section \<open>Values shared by the two modules\<close>

text \<open>
  A JavaScript \<^verbatim>\<open>Error\<close> is represented by its message, the only part of it the
  code reads (\<^verbatim>\<open>err.message\<close>, \<^verbatim>\<open>error.message\<close>).
\<close>

datatype js_error = Error (message: string)

text \<open>
  A call of the pino logger is recorded with its level and its arguments in order; an
  error object passed as an argument is recorded as its message.
\<close>

datatype log_call = Log_info "string list" | Log_warn "string list"

section \<open>The history store: \<^verbatim>\<open>src/components/logger/history.ts\<close>\<close>

subsection \<open>The table\<close>

text \<open>
  A value bound to, or read from, a column of the table: \<^verbatim>\<open>undefined\<close> and
  \<^verbatim>\<open>null\<close> are stored as NULL, a number as an INTEGER, a string as TEXT.
\<close>

datatype sql_value = Null | Integer int | Text string

text \<open>
  One row of the table \<^verbatim>\<open>history\<close> declared by \<^verbatim>\<open>createTableSQL\<close>. The column
  \<^verbatim>\<open>id INTEGER PRIMARY KEY\<close> is the row id of SQLite (written \<open>row_id\<close> here,
  \<open>id\<close> being the identity function of HOL); \<^verbatim>\<open>reported INTEGER DEFAULT 0\<close> is
  only ever written by the default and by \<^verbatim>\<open>SET reported = 1\<close>.
\<close>

record history_row =
  row_id :: int
  created_at :: sql_value
  probe_id :: sql_value
  status_code :: sql_value
  probe_name :: sql_value
  probe_url :: sql_value
  response_time :: sql_value
  error_resp :: sql_value
  reported :: int

text \<open>
  The state the module works on: the table \<^verbatim>\<open>history\<close> of the database behind the
  global handle \<^verbatim>\<open>db\<close> (\<open>None\<close> when the database has no such table) and the
  calls of the logger. Apart from \<open>openLogfile\<close>, which is told whether the database
  could be opened, the functions are modelled on a database that was opened.
\<close>

record store =
  history :: "history_row list option"
  logged :: "log_call list"

subsection \<open>The statements, as the SQLite engine executes them\<close>

text \<open>
  Each statement either fails, leaving the table as it was, or takes effect as a whole.
  A statement that names the table fails when the table does not exist, except for the
  two guarded by \<^verbatim>\<open>IF NOT EXISTS\<close> and \<^verbatim>\<open>IF EXISTS\<close>, which cannot fail for
  that reason. Faults of the file system under the engine are not modelled.
\<close>

definition no_such_table :: js_error where
  "no_such_table = Error ''SQLITE_ERROR: no such table: history''"

text \<open>The rows of the table, or the error every statement naming the table reports.\<close>

definition table_rows :: "store \<Rightarrow> js_error + history_row list" where
  "table_rows st =
     (case history st of None \<Rightarrow> Inl no_such_table | Some rows \<Rightarrow> Inr rows)"

text \<open>\<^verbatim>\<open>CREATE TABLE IF NOT EXISTS history (...)\<close>\<close>

definition run_createTableSQL :: "store \<Rightarrow> store" where
  "run_createTableSQL st =
     st\<lparr>history := Some (case history st of None \<Rightarrow> [] | Some rows \<Rightarrow> rows)\<rparr>"

text \<open>\<^verbatim>\<open>DROP TABLE IF EXISTS history\<close>\<close>

definition run_dropTableSQL :: "store \<Rightarrow> store" where
  "run_dropTableSQL st = st\<lparr>history := None\<rparr>"

text \<open>
  The row id SQLite gives a row inserted without one: 1 in an empty table, otherwise one
  more than the largest row id in the table.
\<close>

definition next_row_id :: "history_row list \<Rightarrow> int" where
  "next_row_id rows =
     (case rows of [] \<Rightarrow> 1 | r # rs \<Rightarrow> fold max (map row_id rs) (row_id r) + 1)"

text \<open>
  \<^verbatim>\<open>INSERT into history (probe_id, created_at, status_code, probe_name, probe_url,
  response_time, error_resp) VALUES(?, ?, ?, ?, ?, ?, ?)\<close>: the seven columns take the
  seven bound values in that order, \<^verbatim>\<open>id\<close> the next row id and \<^verbatim>\<open>reported\<close> its
  default 0.
\<close>

type_synonym insert_params =
  "sql_value \<times> sql_value \<times> sql_value \<times> sql_value \<times> sql_value \<times> sql_value \<times> sql_value"

fun inserted_row :: "history_row list \<Rightarrow> insert_params \<Rightarrow> history_row" where
  "inserted_row rows (p1, p2, p3, p4, p5, p6, p7) =
     \<lparr>row_id = next_row_id rows,
      created_at = p2,
      probe_id = p1,
      status_code = p3,
      probe_name = p4,
      probe_url = p5,
      response_time = p6,
      error_resp = p7,
      reported = 0\<rparr>"

definition run_insertSQL :: "insert_params \<Rightarrow> store \<Rightarrow> js_error + store" where
  "run_insertSQL params st =
     (case table_rows st of
        Inl e \<Rightarrow> Inl e
      | Inr rows \<Rightarrow> Inr (st\<lparr>history := Some (rows @ [inserted_row rows params])\<rparr>))"

text \<open>
  \<^verbatim>\<open>UPDATE history SET reported = 1 WHERE id IN (i1, ..., in)\<close>: every row whose id is
  in the list is updated, every other row is left alone. An id of the list that no row
  has matches nothing, and the empty list \<^verbatim>\<open>IN ()\<close>, which SQLite accepts, matches
  no row.
\<close>

definition mark_row :: "int list \<Rightarrow> history_row \<Rightarrow> history_row" where
  "mark_row ids r = (if row_id r \<in> set ids then r\<lparr>reported := 1\<rparr> else r)"

definition run_updateRowsSQL :: "int list \<Rightarrow> store \<Rightarrow> js_error + store" where
  "run_updateRowsSQL ids st =
     (case table_rows st of
        Inl e \<Rightarrow> Inl e
      | Inr rows \<Rightarrow> Inr (st\<lparr>history := Some (map (mark_row ids) rows)\<rparr>))"

subsection \<open>The text of the update statement\<close>

text \<open>
  The decimal text JavaScript gives a number that is an integer, as \<^verbatim>\<open>join\<close> and
  string concatenation produce it: the digits, most significant first, behind a minus
  sign when the number is negative.
\<close>

definition digit :: "nat \<Rightarrow> char" where
  "digit d = ''0123456789'' ! d"

function decimal_digits :: "nat \<Rightarrow> string \<Rightarrow> string" where
  "decimal_digits n acc =
     (if n < 10 then digit n # acc else decimal_digits (n div 10) (digit (n mod 10) # acc))"
  by pat_completeness auto
termination
  by (relation "measure (\<lambda>(n, acc). n)") auto

definition number_to_string :: "int \<Rightarrow> string" where
  "number_to_string i =
     (if 0 \<le> i then decimal_digits (nat i) [] else CHR ''-'' # decimal_digits (nat (- i)) [])"

text \<open>\<^verbatim>\<open>Array.prototype.join\<close>\<close>

fun join :: "string \<Rightarrow> string list \<Rightarrow> string" where
  "join sep [] = []"
| "join sep [x] = x"
| "join sep (x # y # ys) = x @ sep @ join sep (y # ys)"

definition updateRowsSQL :: "int list \<Rightarrow> string" where
  "updateRowsSQL ids =
     ''UPDATE history SET reported = 1 WHERE id IN ('' @ join '', '' (map number_to_string ids) @ '')''"

subsection \<open>The functions of the module\<close>

text \<open>\<^verbatim>\<open>createTable\<close> runs its statement, without a callback.\<close>

definition createTable :: "store \<Rightarrow> store" where
  "createTable st = run_createTableSQL st"

text \<open>
  \<^verbatim>\<open>openLogfile\<close>. The argument \<open>err\<close> is what the driver passes to the callback of
  \<^verbatim>\<open>new sqlite3.Database(dbPath, OPEN_READWRITE | OPEN_CREATE, callback)\<close>: the
  message of the open error, or \<open>None\<close> when the file was opened or created. The
  callback logs the error, if any, and calls \<^verbatim>\<open>createTable\<close> in both cases; after
  an open error there is no database for the statement of \<^verbatim>\<open>createTable\<close> to run
  on, and the table is as it was. The function has no \<^verbatim>\<open>throw\<close> and awaits
  nothing, so its promise is fulfilled: the first component of the result is the outcome
  of that promise.
\<close>

definition openLogfile :: "string option \<Rightarrow> store \<Rightarrow> (js_error + unit) \<times> store" where
  "openLogfile err st =
     (case err of
        Some m \<Rightarrow>
          (Inr (),
           st\<lparr>logged := logged st @ [Log_info [''warning: cannot open logfile. error:'', m]]\<rparr>)
      | None \<Rightarrow> (Inr (), createTable st))"

text \<open>
  The rows \<^verbatim>\<open>getAllLogs\<close> resolves to:
  \<^verbatim>\<open>SELECT rowid AS id, probe_id, status_code, probe_url, response_time FROM history\<close>
\<close>

record HistoryLogType =
  log_id :: int
  log_probe_id :: sql_value
  log_status_code :: sql_value
  log_probe_url :: sql_value
  log_response_time :: sql_value

definition select_all :: "history_row \<Rightarrow> HistoryLogType" where
  "select_all r =
     \<lparr>log_id = row_id r, log_probe_id = probe_id r, log_status_code = status_code r,
      log_probe_url = probe_url r, log_response_time = response_time r\<rparr>"

definition getAllLogs :: "store \<Rightarrow> js_error + HistoryLogType list" where
  "getAllLogs st =
     (case table_rows st of Inl e \<Rightarrow> Inl e | Inr rows \<Rightarrow> Inr (map select_all rows))"

text \<open>
  The rows \<^verbatim>\<open>getUnreportedLogs\<close> resolves to:
  \<^verbatim>\<open>SELECT id, created_at, probe_id, status_code, probe_name, probe_url, response_time,
  error_resp FROM history WHERE reported = 0\<close>
\<close>

record HistoryReportLogType =
  rep_id :: int
  rep_created_at :: sql_value
  rep_probe_id :: sql_value
  rep_status_code :: sql_value
  rep_probe_name :: sql_value
  rep_probe_url :: sql_value
  rep_response_time :: sql_value
  rep_error_resp :: sql_value

definition select_unreported :: "history_row \<Rightarrow> HistoryReportLogType" where
  "select_unreported r =
     \<lparr>rep_id = row_id r, rep_created_at = created_at r, rep_probe_id = probe_id r,
      rep_status_code = status_code r, rep_probe_name = probe_name r,
      rep_probe_url = probe_url r, rep_response_time = response_time r,
      rep_error_resp = error_resp r\<rparr>"

definition getUnreportedLogs :: "store \<Rightarrow> js_error + HistoryReportLogType list" where
  "getUnreportedLogs st =
     (case table_rows st of
        Inl e \<Rightarrow> Inl e
      | Inr rows \<Rightarrow> Inr (map select_unreported (filter (\<lambda>r. reported r = 0) rows)))"

text \<open>
  \<^verbatim>\<open>setLogsAsReported\<close>: the promise is rejected with a wrapped error when the
  statement fails and fulfilled otherwise.
\<close>

definition setLogsAsReported :: "int list \<Rightarrow> store \<Rightarrow> js_error + store" where
  "setLogsAsReported ids st =
     (case run_updateRowsSQL ids st of
        Inl err \<Rightarrow>
          Inl (Error (''error, cannot mark logs as updated in history.db: '' @ message err))
      | Inr st' \<Rightarrow> Inr st')"

text \<open>
  \<^verbatim>\<open>flushAllLogs\<close>: \<^verbatim>\<open>await db.run(dropTableSQL)\<close>, then \<^verbatim>\<open>createTable()\<close>.
  \<^verbatim>\<open>db.run\<close> returns the Database object, not a promise, so the \<^verbatim>\<open>await\<close> does
  not wait for the \<^verbatim>\<open>DROP\<close> to be executed, and the module never calls
  \<^verbatim>\<open>db.serialize\<close>: both statements are handed to the driver at once, and the
  driver executes them in the order they were issued or in the other order. That order
  is the first argument.
\<close>

datatype execution_order = As_issued | Reversed

definition flushAllLogs :: "execution_order \<Rightarrow> store \<Rightarrow> store" where
  "flushAllLogs order st =
     (case order of
        As_issued \<Rightarrow> createTable (run_dropTableSQL st)
      | Reversed \<Rightarrow> run_dropTableSQL (createTable st))"

text \<open>
  \<^verbatim>\<open>saveLog\<close>. Of the probe and of its response the function reads
  \<^verbatim>\<open>probe.id\<close>, \<^verbatim>\<open>probe.name\<close>, \<^verbatim>\<open>probeRes.status\<close>,
  \<^verbatim>\<open>probeRes.config.url\<close> and \<^verbatim>\<open>probeRes.config.extraData?.responseTime\<close>, the
  last two possibly undefined. \<open>created\<close> is the value of
  \<^verbatim>\<open>new Date().toISOString()\<close> at the call. A failed insert is logged by the callback.
\<close>

record Probe =
  probe_id_of :: string
  probe_name_of :: string

record AxiosResponseWithExtraData =
  status :: int
  config_url :: "string option"
  extraData_responseTime :: "int option"

definition text_or_null :: "string option \<Rightarrow> sql_value" where
  "text_or_null s = (case s of None \<Rightarrow> Null | Some t \<Rightarrow> Text t)"

definition integer_or_null :: "int option \<Rightarrow> sql_value" where
  "integer_or_null n = (case n of None \<Rightarrow> Null | Some i \<Rightarrow> Integer i)"

text \<open>The array \<^verbatim>\<open>params\<close> of \<^verbatim>\<open>saveLog\<close>.\<close>

definition saveLog_params ::
  "Probe \<Rightarrow> AxiosResponseWithExtraData \<Rightarrow> string \<Rightarrow> string \<Rightarrow> insert_params" where
  "saveLog_params probe probeRes errorResp created =
     (Text (probe_id_of probe),
      Text created,
      Integer (status probeRes),
      Text (probe_name_of probe),
      text_or_null (config_url probeRes),
      integer_or_null (extraData_responseTime probeRes),
      Text errorResp)"

definition saveLog ::
  "Probe \<Rightarrow> AxiosResponseWithExtraData \<Rightarrow> int \<Rightarrow> string \<Rightarrow> string \<Rightarrow> store \<Rightarrow> store" where
  "saveLog probe probeRes requestIndex errorResp created st =
     (case run_insertSQL (saveLog_params probe probeRes errorResp created) st of
        Inl err \<Rightarrow>
          st\<lparr>logged := logged st @
                [Log_info [''error, cannot insert data into history.db'', message err]]\<rparr>
      | Inr st' \<Rightarrow> st')"

subsection \<open>Sequences of calls on the store\<close>

text \<open>
  The calls a client makes on the store between opening and flushing it: an insert, one
  of the two reads, or a mark. Each of them issues one statement, and a list of calls
  gives them in the order in which the engine executes their statements. A read leaves
  the store as it is; a mark whose promise is rejected leaves it as it is too.
\<close>

datatype store_call =
    Call_saveLog Probe AxiosResponseWithExtraData int string string
  | Call_getAllLogs
  | Call_getUnreportedLogs
  | Call_setLogsAsReported "int list"

fun run_call :: "store_call \<Rightarrow> store \<Rightarrow> store" where
  "run_call (Call_saveLog probe probeRes requestIndex errorResp created) st =
     saveLog probe probeRes requestIndex errorResp created st"
| "run_call Call_getAllLogs st = st"
| "run_call Call_getUnreportedLogs st = st"
| "run_call (Call_setLogsAsReported ids) st =
     (case setLogsAsReported ids st of Inl e \<Rightarrow> st | Inr st' \<Rightarrow> st')"

definition run_calls :: "store_call list \<Rightarrow> store \<Rightarrow> store" where
  "run_calls calls st = fold run_call calls st"

text \<open>The call of \<open>saveLog\<close> with the given five arguments.\<close>

fun insert_call :: "Probe \<times> AxiosResponseWithExtraData \<times> int \<times> string \<times> string \<Rightarrow> store_call" where
  "insert_call (probe, probeRes, requestIndex, errorResp, created) =
     Call_saveLog probe probeRes requestIndex errorResp created"

subsection \<open>Sample stores\<close>

definition sample_row :: history_row where
  "sample_row =
     \<lparr>row_id = 1,
      created_at = Text ''2021-05-01T00:00:00.000Z'',
      probe_id = Text ''1'',
      status_code = Integer 200,
      probe_name = Text ''Example'',
      probe_url = Text ''https://example.com'',
      response_time = Integer 120,
      error_resp = Text [],
      reported = 0\<rparr>"

definition sample_store :: store where
  "sample_store = \<lparr>history = Some [sample_row], logged = []\<rparr>"

definition empty_store :: store where
  "empty_store = \<lparr>history = Some [], logged = []\<rparr>"

definition new_store :: store where
  "new_store = \<lparr>history = None, logged = []\<rparr>"

definition sample_probe :: Probe where
  "sample_probe = \<lparr>probe_id_of = ''1'', probe_name_of = ''Example''\<rparr>"

definition sample_response :: AxiosResponseWithExtraData where
  "sample_response =
     \<lparr>status = 200, config_url = Some ''https://example.com'', extraData_responseTime = Some 120\<rparr>"

section \<open>The reporter: \<^verbatim>\<open>src/components/reporter/index.ts\<close>\<close>

subsection \<open>Rows, configuration and requests\<close>

text \<open>
  A row the driver returns is a JavaScript object with one property for each selected
  column: a finite map from property names to column values. Reading a property the
  object does not have gives \<^verbatim>\<open>undefined\<close>, here \<open>None\<close>.
\<close>

type_synonym js_object = "string \<rightharpoonup> sql_value"

text \<open>
  The shape \<^verbatim>\<open>{requests, notifications}\<close>, both of the value
  \<^verbatim>\<open>getUnreportedLogs\<close> resolves to in this module and of the field \<^verbatim>\<open>data\<close> of a
  report.
\<close>

record logs =
  requests :: "js_object list"
  notifications :: "js_object list"

record SymonConfig =
  symon_id :: string
  symon_url :: string
  symon_key :: string
  symon_interval :: "int option"

text \<open>
  Of the configuration (\<^verbatim>\<open>interfaces/config\<close>, not part of the sources at hand) the
  module reads the optional fields \<^verbatim>\<open>symon\<close> and \<^verbatim>\<open>version\<close>; every other field is
  in the extension of the record.
\<close>

record Config =
  symon :: "SymonConfig option"
  version :: "string option"

record SymonResponse =
  result :: string
  response_message :: string

text \<open>
  The request \<^verbatim>\<open>report\<close> hands to \<^verbatim>\<open>axios.post\<close>: the address, the object that
  \<^verbatim>\<open>transformRequest\<close> serialises and compresses, and the headers.
\<close>

record report_body =
  monika_instance_id :: string
  config_version :: string
  data :: logs

record http_request =
  request_url :: string
  request_body :: report_body
  request_headers :: "(string \<times> string) list"

text \<open>
  What the network answers to a request, and what \<^verbatim>\<open>axios.post\<close> makes of it: the
  promise is rejected when no response arrives and, by the default
  \<^verbatim>\<open>validateStatus\<close>, when the status is outside 200..299.
\<close>

datatype http_outcome = Network_error string | Http_response int SymonResponse

definition axios_post :: "http_outcome \<Rightarrow> js_error + SymonResponse" where
  "axios_post outcome =
     (case outcome of
        Network_error m \<Rightarrow> Inl (Error m)
      | Http_response code body \<Rightarrow>
          if 200 \<le> code \<and> code < 300 then Inr body
          else Inl (Error (''Request failed with status code '' @ number_to_string code)))"

text \<open>
  The functions this module imports from \<^verbatim>\<open>../logger/history\<close> are a
  \<^verbatim>\<open>getUnreportedLogs\<close> that resolves to \<^verbatim>\<open>{requests, notifications}\<close>,
  \<^verbatim>\<open>setRequestLogAsReported\<close> and \<^verbatim>\<open>setNotificationLogAsReported\<close>. The
  \<^verbatim>\<open>history.ts\<close> at hand has none of the three in that form, so the reporter is
  modelled for any three functions over any store \<open>'s\<close>: the read may fail, a mark may
  fail and returns the store it leaves.
\<close>

record 's history_module =
  hm_getUnreportedLogs :: "'s \<Rightarrow> js_error + logs"
  hm_setRequestLogAsReported :: "sql_value option list \<Rightarrow> 's \<Rightarrow> (js_error + unit) \<times> 's"
  hm_setNotificationLogAsReported :: "sql_value option list \<Rightarrow> 's \<Rightarrow> (js_error + unit) \<times> 's"

text \<open>
  What a run of the reporter acts on: the store, the requests sent to the collector so
  far, and the calls of the logger.
\<close>

record 's world =
  the_store :: 's
  sent :: "http_request list"
  warned :: "log_call list"

subsection \<open>The functions of the module\<close>

text \<open>\<^verbatim>\<open>({ id: _, ...rest }) => rest\<close>\<close>

definition omit_id :: "js_object \<Rightarrow> js_object" where
  "omit_id log = log(''id'' := None)"

text \<open>\<^verbatim>\<open>(log) => log.id\<close>\<close>

definition get_id :: "js_object \<Rightarrow> sql_value option" where
  "get_id log = log ''id''"

text \<open>
  \<^verbatim>\<open>config.version || md5Hash(config)\<close>: the left operand when it is truthy, that is a
  string that is not empty. \<^verbatim>\<open>md5Hash\<close> (\<^verbatim>\<open>utils/hash\<close>) is not part of the
  sources at hand and is a parameter.
\<close>

definition configVersion :: "('c Config_scheme \<Rightarrow> string) \<Rightarrow> 'c Config_scheme \<Rightarrow> string" where
  "configVersion md5Hash config =
     (case version config of
        Some v \<Rightarrow> if v \<noteq> [] then v else md5Hash config
      | None \<Rightarrow> md5Hash config)"

text \<open>\<^verbatim>\<open>report\<close>: the request it posts.\<close>

definition report_request :: "string \<Rightarrow> string \<Rightarrow> string \<Rightarrow> string \<Rightarrow> logs \<Rightarrow> http_request" where
  "report_request url key instanceId configVersion' data' =
     \<lparr>request_url = url @ ''/report'',
      request_body =
        \<lparr>monika_instance_id = instanceId, config_version = configVersion', data = data'\<rparr>,
      request_headers =
        [(''Content-Encoding'', ''gzip''),
         (''Content-Type'', ''application/json''),
         (''x-api-key'', key)]\<rparr>"

definition report ::
  "(http_request \<Rightarrow> http_outcome) \<Rightarrow> string \<Rightarrow> string \<Rightarrow> string \<Rightarrow> string \<Rightarrow> logs \<Rightarrow>
   js_error + SymonResponse" where
  "report collector url key instanceId configVersion' data' =
     axios_post (collector (report_request url key instanceId configVersion' data'))"

text \<open>
  \<^verbatim>\<open>Promise.all([setRequestLogAsReported(...), setNotificationLogAsReported(...)])\<close>:
  both functions are called before anything is awaited, the one for requests first, so
  both run whatever the other does; the whole is rejected when one of them is.
\<close>

definition mark_all :: "'s history_module \<Rightarrow> logs \<Rightarrow> 's \<Rightarrow> (js_error + unit) \<times> 's" where
  "mark_all hm unreportedLog s =
     (let (r1, s1) = hm_setRequestLogAsReported hm (map get_id (requests unreportedLog)) s;
          (r2, s2) = hm_setNotificationLogAsReported hm (map get_id (notifications unreportedLog)) s1
      in ((case r1 of Inl e \<Rightarrow> Inl e | Inr u \<Rightarrow> r2), s2))"

text \<open>
  The body of the \<^verbatim>\<open>try\<close> of \<^verbatim>\<open>getLogsAndReport\<close>; \<open>Inl\<close> is the error thrown
  out of it.
\<close>

definition try_report ::
  "'s history_module \<Rightarrow> ('c Config_scheme \<Rightarrow> string) \<Rightarrow> (http_request \<Rightarrow> http_outcome) \<Rightarrow>
   SymonConfig \<Rightarrow> 'c Config_scheme \<Rightarrow> 's world \<Rightarrow> (js_error + unit) \<times> 's world" where
  "try_report hm md5Hash collector sc config w =
     (case hm_getUnreportedLogs hm (the_store w) of
        Inl e \<Rightarrow> (Inl e, w)
      | Inr unreportedLog \<Rightarrow>
          (let requests' = map omit_id (requests unreportedLog);
               notifications' = map omit_id (notifications unreportedLog);
               data' = \<lparr>requests = requests', notifications = notifications'\<rparr>;
               cv = configVersion md5Hash config;
               w1 = w\<lparr>sent := sent w @
                      [report_request (symon_url sc) (symon_key sc) (symon_id sc) cv data']\<rparr>
           in (case report collector (symon_url sc) (symon_key sc) (symon_id sc) cv data' of
                 Inl e \<Rightarrow> (Inl e, w1)
               | Inr response \<Rightarrow>
                   (let (r, s) = mark_all hm unreportedLog (the_store w1)
                    in (r, w1\<lparr>the_store := s\<rparr>)))))"

text \<open>
  The prefix of the warning. Its second character is U+203A, written as the three bytes
  of its UTF-8 encoding.
\<close>

definition warning_prefix :: string where
  "warning_prefix =
     CHR 0x20 # CHR 0xE2 # CHR 0x80 # CHR 0xBA # ''   Warning: Can't report history to Symon. ''"

text \<open>
  \<^verbatim>\<open>getLogsAndReport\<close>, on the configuration \<^verbatim>\<open>getConfig()\<close> returned. The
  \<^verbatim>\<open>catch\<close> takes every error of the \<^verbatim>\<open>try\<close>, so the promise of the function is
  fulfilled (with \<^verbatim>\<open>undefined\<close>): the first component of the result.
\<close>

definition getLogsAndReport ::
  "'s history_module \<Rightarrow> ('c Config_scheme \<Rightarrow> string) \<Rightarrow> (http_request \<Rightarrow> http_outcome) \<Rightarrow>
   'c Config_scheme \<Rightarrow> 's world \<Rightarrow> (js_error + unit) \<times> 's world" where
  "getLogsAndReport hm md5Hash collector config w =
     (case symon config of
        None \<Rightarrow> (Inr (), w)
      | Some sc \<Rightarrow>
          (case try_report hm md5Hash collector sc config w of
             (Inl error, w') \<Rightarrow>
               (Inr (), w'\<lparr>warned := warned w' @ [Log_warn [warning_prefix @ message error]]\<rparr>)
           | (Inr u, w') \<Rightarrow> (Inr (), w')))"

subsection \<open>A store for the reporter\<close>

text \<open>
  The object the driver builds for a row of the unreported batch: one property for each
  column of the \<^verbatim>\<open>SELECT\<close>.
\<close>

definition row_object :: "HistoryReportLogType \<Rightarrow> js_object" where
  "row_object r =
     [''id'' \<mapsto> Integer (rep_id r),
      ''created_at'' \<mapsto> rep_created_at r,
      ''probe_id'' \<mapsto> rep_probe_id r,
      ''status_code'' \<mapsto> rep_status_code r,
      ''probe_name'' \<mapsto> rep_probe_name r,
      ''probe_url'' \<mapsto> rep_probe_url r,
      ''response_time'' \<mapsto> rep_response_time r,
      ''error_resp'' \<mapsto> rep_error_resp r]"

definition ids_of :: "sql_value option list \<Rightarrow> int list" where
  "ids_of vs = List.map_filter (\<lambda>v. case v of Some (Integer i) \<Rightarrow> Some i | _ \<Rightarrow> None) vs"

text \<open>
  One instance of the three imported functions, for running the reporter on concrete
  stores: a pair of stores of the kind above, the first for requests and the second for
  notifications, read by \<open>getUnreportedLogs\<close> and marked by \<open>setLogsAsReported\<close>.
  The theorems on the reporter hold for every instance.
\<close>

definition two_tables :: "(store \<times> store) history_module" where
  "two_tables =
     \<lparr>hm_getUnreportedLogs =
        (\<lambda>(rq, nt).
           case getUnreportedLogs rq of
             Inl e \<Rightarrow> Inl e
           | Inr rs \<Rightarrow>
               (case getUnreportedLogs nt of
                  Inl e \<Rightarrow> Inl e
                | Inr ns \<Rightarrow> Inr \<lparr>requests = map row_object rs, notifications = map row_object ns\<rparr>)),
      hm_setRequestLogAsReported =
        (\<lambda>ids (rq, nt).
           case setLogsAsReported (ids_of ids) rq of
             Inl e \<Rightarrow> (Inl e, (rq, nt))
           | Inr rq' \<Rightarrow> (Inr (), (rq', nt))),
      hm_setNotificationLogAsReported =
        (\<lambda>ids (rq, nt).
           case setLogsAsReported (ids_of ids) nt of
             Inl e \<Rightarrow> (Inl e, (rq, nt))
           | Inr nt' \<Rightarrow> (Inr (), (rq, nt')))\<rparr>"

definition sample_symon :: SymonConfig where
  "sample_symon =
     \<lparr>symon_id = ''monika-1'', symon_url = ''https://symon.example'', symon_key = ''secret'',
      symon_interval = None\<rparr>"

definition sample_config :: Config where
  "sample_config = \<lparr>symon = Some sample_symon, version = Some ''1.0.0''\<rparr>"

definition sample_md5Hash :: "Config \<Rightarrow> string" where
  "sample_md5Hash config = ''d41d8cd98f00b204e9800998ecf8427e''"

definition collector_accepts :: "http_request \<Rightarrow> http_outcome" where
  "collector_accepts req = Http_response 200 \<lparr>result = ''ok'', response_message = []\<rparr>"

definition collector_rejects :: "http_request \<Rightarrow> http_outcome" where
  "collector_rejects req = Http_response 500 \<lparr>result = ''error'', response_message = []\<rparr>"

definition sample_world :: "store \<Rightarrow> store \<Rightarrow> (store \<times> store) world" where
  "sample_world rq nt = \<lparr>the_store = (rq, nt), sent = [], warned = []\<rparr>"

section \<open>Auxiliary notions for the proofs\<close>

text \<open>A row and a later version of it: the same row, or the row with the flag set.\<close>

definition flag_raised :: "history_row \<Rightarrow> history_row \<Rightarrow> bool" where
  "flag_raised r r' \<longleftrightarrow> r' = r \<or> r' = r\<lparr>reported := 1\<rparr>"

text \<open>
  The id \<open>i\<close> is settled in a store: the table has a row with that id, and every row
  with that id has the flag set.
\<close>

definition settled :: "int \<Rightarrow> store \<Rightarrow> bool" where
  "settled i st \<longleftrightarrow>
     (\<exists>rows. history st = Some rows \<and> i \<in> row_id ` set rows \<and>
        (\<forall>r\<in>set rows. row_id r = i \<longrightarrow> reported r = 1))"

section \<open>Properties of the store\<close>

subsection \<open>Basic facts\<close>

lemma table_rows_Inr: "table_rows st = Inr rows \<longleftrightarrow> history st = Some rows"
  by (auto simp: table_rows_def split: option.splits)

lemma fold_max_lower: "(a::int) \<le> fold max xs a"
proof (induction xs arbitrary: a)
  case Nil
  show ?case by simp
next
  case (Cons x xs)
  have "a \<le> max x a" by simp
  also have "max x a \<le> fold max xs (max x a)" by (rule Cons.IH)
  finally show ?case by simp
qed

lemma fold_max_upper: "x \<in> set xs \<Longrightarrow> (x::int) \<le> fold max xs a"
proof (induction xs arbitrary: a)
  case Nil
  then show ?case by simp
next
  case (Cons y ys)
  show ?case
  proof (cases "x = y")
    case True
    have "x \<le> max y a" using True by simp
    also have "\<dots> \<le> fold max ys (max y a)" by (rule fold_max_lower)
    finally show ?thesis by simp
  next
    case False
    with Cons.prems have "x \<in> set ys" by simp
    then show ?thesis using Cons.IH by simp
  qed
qed

lemma fold_max_mem: "fold max xs (a::int) \<in> insert a (set xs)"
proof (induction xs arbitrary: a)
  case Nil
  show ?case by simp
next
  case (Cons x xs)
  have "fold max xs (max x a) \<in> insert (max x a) (set xs)"
    by (rule Cons.IH)
  moreover have "max x a = x \<or> max x a = a"
    by (simp add: max_def)
  ultimately show ?case by auto
qed

lemma next_row_id_above: "r \<in> set rows \<Longrightarrow> row_id r < next_row_id rows"
proof (cases rows)
  case Nil
  assume "r \<in> set rows"
  with Nil show ?thesis by simp
next
  case (Cons r0 rs)
  assume "r \<in> set rows"
  with Cons have "r = r0 \<or> row_id r \<in> set (map row_id rs)" by auto
  then have "row_id r \<le> fold max (map row_id rs) (row_id r0)"
    using fold_max_lower fold_max_upper by blast
  with Cons show ?thesis by (simp add: next_row_id_def)
qed

lemma next_row_id_upto:
  assumes "map row_id rows = map int [1..<Suc n]"
  shows "next_row_id rows = int n + 1"
proof -
  from assms have "length (map row_id rows) = length (map int [1..<Suc n])"
    by (rule arg_cong)
  then have len: "length rows = n"
    by (simp del: upt_Suc)
  show ?thesis
  proof (cases rows)
    case Nil
    with len have "n = 0" by simp
    with Nil show ?thesis by (simp add: next_row_id_def)
  next
    case (Cons r rs)
    let ?m = "fold max (map row_id rs) (row_id r)"
    have ids: "set (map row_id rows) = int ` {1..<Suc n}"
      using assms by (metis set_map set_upt)
    have "?m \<in> set (map row_id rows)"
      using fold_max_mem [of "map row_id rs" "row_id r"] Cons by simp
    with ids have upper: "?m \<le> int n" by auto
    from Cons len have "n \<noteq> 0" by auto
    with ids have "int n \<in> set (map row_id rows)" by auto
    then obtain x where "x \<in> set rows" "row_id x = int n" by auto
    with next_row_id_above [of x rows] have "int n < next_row_id rows" by simp
    with upper Cons show ?thesis by (simp add: next_row_id_def)
  qed
qed

lemma inserted_row_reported [simp]: "reported (inserted_row rows params) = 0"
  by (cases params) simp

lemma inserted_row_id [simp]: "row_id (inserted_row rows params) = next_row_id rows"
  by (cases params) simp

lemma saveLog_history:
  "history (saveLog p r i e c st) =
     (case table_rows st of
        Inl err \<Rightarrow> history st
      | Inr rows \<Rightarrow> Some (rows @ [inserted_row rows (saveLog_params p r e c)]))"
  by (simp add: saveLog_def run_insertSQL_def split: sum.splits)

lemma setLogsAsReported_Inr:
  "setLogsAsReported ids st = Inr st' \<longleftrightarrow>
     (\<exists>rows. table_rows st = Inr rows \<and> st' = st\<lparr>history := Some (map (mark_row ids) rows)\<rparr>)"
  by (auto simp: setLogsAsReported_def run_updateRowsSQL_def split: sum.splits)

lemma run_call_mark_history:
  "history (run_call (Call_setLogsAsReported ids) st) =
     (case table_rows st of Inl err \<Rightarrow> history st | Inr rows \<Rightarrow> Some (map (mark_row ids) rows))"
  by (simp add: setLogsAsReported_def run_updateRowsSQL_def split: sum.splits)

lemma run_calls_Nil [simp]: "run_calls [] st = st"
  by (simp add: run_calls_def)

lemma run_calls_Cons [simp]: "run_calls (c # cs) st = run_calls cs (run_call c st)"
  by (simp add: run_calls_def)

lemma flushAllLogs_as_issued: "flushAllLogs As_issued st = st\<lparr>history := Some []\<rparr>"
  by (simp add: flushAllLogs_def createTable_def run_dropTableSQL_def run_createTableSQL_def)

lemma flushAllLogs_reversed: "flushAllLogs Reversed st = st\<lparr>history := None\<rparr>"
  by (simp add: flushAllLogs_def createTable_def run_dropTableSQL_def run_createTableSQL_def)

text \<open>
  What one call does to a table that exists: the rows stay in place, a mark sets the flag
  of some of them, an insert adds one row with the flag 0 and an id above all others.
\<close>

lemma run_call_rows:
  assumes "history st = Some rows"
  shows "\<exists>kept extra. history (run_call c st) = Some (kept @ extra) \<and>
           (kept = rows \<or> (\<exists>ids. c = Call_setLogsAsReported ids \<and> kept = map (mark_row ids) rows)) \<and>
           (\<forall>x\<in>set extra. reported x = 0 \<and> (\<forall>r\<in>set rows. row_id r < row_id x))"
proof -
  from assms have rows: "table_rows st = Inr rows"
    by (simp add: table_rows_Inr)
  have unchanged: ?thesis if "history (run_call c st) = Some rows"
  proof -
    have "history (run_call c st) = Some (rows @ []) \<and>
           (rows = rows \<or> (\<exists>ids. c = Call_setLogsAsReported ids \<and> rows = map (mark_row ids) rows)) \<and>
           (\<forall>x\<in>set []. reported x = 0 \<and> (\<forall>r\<in>set rows. row_id r < row_id x))"
      using that by simp
    then show ?thesis by blast
  qed
  show ?thesis
  proof (cases c)
    case (Call_saveLog p r i e cr)
    let ?new = "inserted_row rows (saveLog_params p r e cr)"
    have "history (run_call c st) = Some (rows @ [?new])"
      using Call_saveLog rows by (simp add: saveLog_history)
    moreover have "reported ?new = 0"
      by simp
    moreover have "\<forall>r'\<in>set rows. row_id r' < row_id ?new"
      by (simp add: next_row_id_above)
    ultimately have "history (run_call c st) = Some (rows @ [?new]) \<and>
         (rows = rows \<or> (\<exists>ids. c = Call_setLogsAsReported ids \<and> rows = map (mark_row ids) rows)) \<and>
         (\<forall>x\<in>set [?new]. reported x = 0 \<and> (\<forall>r\<in>set rows. row_id r < row_id x))"
      by simp
    then show ?thesis by blast
  next
    case Call_getAllLogs
    with assms have "history (run_call c st) = Some rows" by simp
    then show ?thesis by (rule unchanged)
  next
    case Call_getUnreportedLogs
    with assms have "history (run_call c st) = Some rows" by simp
    then show ?thesis by (rule unchanged)
  next
    case (Call_setLogsAsReported ids)
    have "history (run_call c st) = Some (map (mark_row ids) rows @ [])"
      using Call_setLogsAsReported rows run_call_mark_history [of ids st] by simp
    then have "history (run_call c st) = Some (map (mark_row ids) rows @ []) \<and>
         (map (mark_row ids) rows = rows \<or>
           (\<exists>ids'. c = Call_setLogsAsReported ids' \<and> map (mark_row ids) rows = map (mark_row ids') rows)) \<and>
         (\<forall>x\<in>set []. reported x = 0 \<and> (\<forall>r\<in>set rows. row_id r < row_id x))"
      using Call_setLogsAsReported by simp
    then show ?thesis by blast
  qed
qed

lemma flag_raised_refl: "flag_raised r r"
  by (simp add: flag_raised_def)

lemma flag_raised_trans: "flag_raised a b \<Longrightarrow> flag_raised b c \<Longrightarrow> flag_raised a c"
  by (auto simp: flag_raised_def)

lemma flag_raised_mark: "flag_raised r (mark_row ids r)"
  by (simp add: flag_raised_def mark_row_def)

lemma run_call_raises:
  assumes "history st = Some rows"
  shows "\<exists>kept extra. history (run_call c st) = Some (kept @ extra) \<and> list_all2 flag_raised rows kept"
proof -
  from run_call_rows [OF assms, of c] obtain kept extra where
    h: "history (run_call c st) = Some (kept @ extra)" and
    k: "kept = rows \<or> (\<exists>ids. c = Call_setLogsAsReported ids \<and> kept = map (mark_row ids) rows)"
    by blast
  from k have "list_all2 flag_raised rows kept"
    by (auto simp: list_all2_map2 list_all2_same flag_raised_mark flag_raised_refl)
  with h show ?thesis by blast
qed

lemma run_calls_raises:
  assumes "history st = Some rows"
  shows "\<exists>kept extra. history (run_calls calls st) = Some (kept @ extra) \<and> list_all2 flag_raised rows kept"
  using assms
proof (induction calls arbitrary: st rows)
  case Nil
  have "history (run_calls [] st) = Some (rows @ []) \<and> list_all2 flag_raised rows rows"
    using Nil by (simp add: flag_raised_refl list_all2_refl)
  then show ?case by blast
next
  case (Cons c calls)
  from run_call_raises [OF Cons.prems, of c] obtain kept extra where
    h: "history (run_call c st) = Some (kept @ extra)" and k: "list_all2 flag_raised rows kept"
    by blast
  from Cons.IH [OF h] obtain kept' extra' where
    h': "history (run_calls calls (run_call c st)) = Some (kept' @ extra')" and
    k': "list_all2 flag_raised (kept @ extra) kept'"
    by blast
  from k' obtain k1 k2 where split: "kept' = k1 @ k2" and k1: "list_all2 flag_raised kept k1"
    by (auto simp: list_all2_append1)
  have "list_all2 flag_raised rows k1"
    using k k1 flag_raised_trans by (rule list_all2_trans [rotated])
  moreover have "history (run_calls (c # calls) st) = Some (k1 @ (k2 @ extra'))"
    using h' split by simp
  ultimately show ?case by blast
qed

lemma inserts_number_rows:
  assumes "history st = Some rows" and "map row_id rows = map int [1..<Suc n]"
  shows "map_option (map row_id) (history (run_calls (map insert_call inserts) st)) =
           Some (map int [1..<Suc (n + length inserts)])"
  using assms
proof (induction inserts arbitrary: st rows n)
  case Nil
  then show ?case by simp
next
  case (Cons a inserts)
  obtain p r i e c where a: "a = (p, r, i, e, c)"
    by (cases a)
  let ?new = "inserted_row rows (saveLog_params p r e c)"
  from Cons.prems have h: "history (run_call (insert_call a) st) = Some (rows @ [?new])"
    by (simp add: a saveLog_history table_rows_def)
  have "row_id ?new = int n + 1"
    using Cons.prems(2) by (simp add: next_row_id_upto)
  with Cons.prems(2) have ids: "map row_id (rows @ [?new]) = map int [1..<Suc (Suc n)]"
    by simp
  from Cons.IH [OF h ids] show ?case
    by simp
qed

subsection \<open>Flushing\<close>

text \<open>
  When the engine executes the two statements of \<open>flushAllLogs\<close> in the order they
  were issued, the flush does what the comment of the function says, whatever inserts,
  reads and marks came before: \<open>getAllLogs\<close> and \<open>getUnreportedLogs\<close> resolve to
  the empty sequence, and the rows inserted next are the only rows of the table and have
  the ids 1, 2, 3 and so on, as in a table that was just created.
\<close>

lemma flush_as_issued:
  "getAllLogs (flushAllLogs As_issued (run_calls calls st)) = Inr [] \<and>
   getUnreportedLogs (flushAllLogs As_issued (run_calls calls st)) = Inr [] \<and>
   map_option (map row_id)
     (history (run_calls (map insert_call inserts) (flushAllLogs As_issued (run_calls calls st)))) =
     Some (map int [1..<Suc (length inserts)])"
proof -
  let ?st = "flushAllLogs As_issued (run_calls calls st)"
  have h: "history ?st = Some []"
    by (simp add: flushAllLogs_as_issued)
  then have rows: "table_rows ?st = Inr []"
    by (simp add: table_rows_Inr)
  have "getAllLogs ?st = Inr []"
    using rows by (simp add: getAllLogs_def)
  moreover have "getUnreportedLogs ?st = Inr []"
    using rows by (simp add: getUnreportedLogs_def)
  moreover have "map_option (map row_id) (history (run_calls (map insert_call inserts) ?st)) =
     Some (map int [1..<Suc (length inserts)])"
    using inserts_number_rows [OF h, of 0 inserts] by simp
  ultimately show ?thesis by blast
qed

text \<open>
  Claim C8 is what the comment of \<open>flushAllLogs\<close> promises (it
  \<^verbatim>\<open>drops the table and recreates it\<close>), and the code does not keep it: nothing makes
  the \<^verbatim>\<open>CREATE\<close> wait for the \<^verbatim>\<open>DROP\<close>. When the engine executes the
  \<^verbatim>\<open>CREATE TABLE IF NOT EXISTS\<close> first, it finds the table and does nothing, and the
  \<^verbatim>\<open>DROP\<close> then removes the table. On a store with one row the flush ends with no
  table: both reads are rejected with \<^verbatim>\<open>no such table\<close>, and the next
  \<open>saveLog\<close> inserts nothing and only logs the error.
\<close>

theorem flush_reversed_leaves_no_table:
  "flushAllLogs Reversed sample_store = \<lparr>history = None, logged = []\<rparr> \<and>
   getAllLogs (flushAllLogs Reversed sample_store) = Inl no_such_table \<and>
   getUnreportedLogs (flushAllLogs Reversed sample_store) = Inl no_such_table \<and>
   saveLog sample_probe sample_response 0 [] ''2021-05-02T00:00:00.000Z''
       (flushAllLogs Reversed sample_store) =
     \<lparr>history = None,
      logged = [Log_info [''error, cannot insert data into history.db'',
                          ''SQLITE_ERROR: no such table: history'']]\<rparr>"
  by (simp add: flushAllLogs_reversed getAllLogs_def getUnreportedLogs_def saveLog_def
      run_insertSQL_def table_rows_def no_such_table_def sample_store_def)

subsection \<open>Marking rows as reported\<close>

text \<open>
  Claim C3, as stated, fails: a call of \<open>setLogsAsReported\<close> with the ids 1 and 99 on
  a table whose only row has the id 1 is fulfilled, with that row marked, although no
  row has the id 99.
\<close>

theorem setLogsAsReported_unknown_id_counterexample:
  "table_rows sample_store = Inr [sample_row] \<and> row_id sample_row = 1 \<and>
   setLogsAsReported [1, 99] sample_store =
     Inr (sample_store\<lparr>history := Some [sample_row\<lparr>reported := 1\<rparr>]\<rparr>)"
  by (simp add: setLogsAsReported_def run_updateRowsSQL_def table_rows_def sample_store_def
      sample_row_def mark_row_def)

text \<open>
  Claim C3, amended. When the table exists, \<open>setLogsAsReported\<close> is fulfilled for
  every list of ids: the table keeps its rows in place, the rows whose id is in the list
  have \<open>reported = 1\<close> and are otherwise unchanged, every other row is unchanged, and
  an id that no row has is ignored. The promise is rejected when the statement itself
  fails, with the engine's message behind the prefix
  \<^verbatim>\<open>error, cannot mark logs as updated in history.db: \<close>.
\<close>

theorem setLogsAsReported_marks_matching_rows:
  "(table_rows st = Inr rows \<longrightarrow>
      (\<exists>rows'. setLogsAsReported ids st = Inr (st\<lparr>history := Some rows'\<rparr>) \<and>
         length rows' = length rows \<and>
         (\<forall>k<length rows. rows' ! k =
            (if row_id (rows ! k) \<in> set ids then (rows ! k)\<lparr>reported := 1\<rparr> else rows ! k)))) \<and>
   (table_rows st = Inl err \<longrightarrow>
      setLogsAsReported ids st =
        Inl (Error (''error, cannot mark logs as updated in history.db: '' @ message err)))"
proof (intro conjI impI)
  assume rows: "table_rows st = Inr rows"
  have "setLogsAsReported ids st = Inr (st\<lparr>history := Some (map (mark_row ids) rows)\<rparr>)"
    using rows by (simp add: setLogsAsReported_def run_updateRowsSQL_def)
  moreover have "length (map (mark_row ids) rows) = length rows"
    by simp
  moreover have "\<forall>k<length rows. map (mark_row ids) rows ! k =
            (if row_id (rows ! k) \<in> set ids then (rows ! k)\<lparr>reported := 1\<rparr> else rows ! k)"
    by (simp add: mark_row_def)
  ultimately show "\<exists>rows'. setLogsAsReported ids st = Inr (st\<lparr>history := Some rows'\<rparr>) \<and>
         length rows' = length rows \<and>
         (\<forall>k<length rows. rows' ! k =
            (if row_id (rows ! k) \<in> set ids then (rows ! k)\<lparr>reported := 1\<rparr> else rows ! k))"
    by blast
next
  assume "table_rows st = Inl err"
  then show "setLogsAsReported ids st =
        Inl (Error (''error, cannot mark logs as updated in history.db: '' @ message err))"
    by (simp add: setLogsAsReported_def run_updateRowsSQL_def)
qed

theorem setLogsAsReported_marks_matching_rows_witness:
  "table_rows sample_store = Inr [sample_row] \<and>
   history (projr (setLogsAsReported [99, 1] sample_store)) = Some [sample_row\<lparr>reported := 1\<rparr>] \<and>
   table_rows new_store = Inl no_such_table \<and>
   setLogsAsReported [99, 1] new_store =
     Inl (Error (''error, cannot mark logs as updated in history.db: '' @ message no_such_table))"
proof -
  have r: "table_rows sample_store = Inr [sample_row]"
    by (simp add: table_rows_def sample_store_def)
  have u: "table_rows new_store = Inl no_such_table"
    by (simp add: table_rows_def new_store_def)
  from r setLogsAsReported_marks_matching_rows
         [where st = sample_store and rows = "[sample_row]" and ids = "[99, 1]"]
  obtain rows' where
    res: "setLogsAsReported [99, 1] sample_store = Inr (sample_store\<lparr>history := Some rows'\<rparr>)" and
    len: "length rows' = 1" and
    row: "rows' ! 0 = sample_row\<lparr>reported := 1\<rparr>"
    by (auto simp: sample_row_def)
  from len row have "rows' = [sample_row\<lparr>reported := 1\<rparr>]"
    by (cases rows') auto
  with res have "history (projr (setLogsAsReported [99, 1] sample_store)) =
      Some [sample_row\<lparr>reported := 1\<rparr>]"
    by simp
  moreover from u setLogsAsReported_marks_matching_rows
                    [where st = new_store and err = no_such_table and ids = "[99, 1]"]
  have "setLogsAsReported [99, 1] new_store =
     Inl (Error (''error, cannot mark logs as updated in history.db: '' @ message no_such_table))"
    by blast
  ultimately show ?thesis using r u by blast
qed

text \<open>
  Claim C10, as stated, fails: for the empty list the statement is
  \<^verbatim>\<open>UPDATE history SET reported = 1 WHERE id IN ()\<close>, but SQLite accepts an empty
  list on the right of \<^verbatim>\<open>IN\<close>, so the statement runs, matches no row, and the
  promise is fulfilled.
\<close>

theorem setLogsAsReported_empty_counterexample:
  "updateRowsSQL [] = ''UPDATE history SET reported = 1 WHERE id IN ()'' \<and>
   setLogsAsReported [] sample_store = Inr sample_store"
  by (simp add: updateRowsSQL_def setLogsAsReported_def run_updateRowsSQL_def table_rows_def
      sample_store_def mark_row_def)

text \<open>
  Claim C10, amended. For the empty list the statement is
  \<^verbatim>\<open>UPDATE history SET reported = 1 WHERE id IN ()\<close>; when the table exists the call
  is fulfilled and leaves the store as it was, and it is rejected only when the
  statement fails for another reason, such as a missing table, as for any other list.
\<close>

theorem setLogsAsReported_empty:
  "updateRowsSQL [] = ''UPDATE history SET reported = 1 WHERE id IN ()'' \<and>
   (table_rows st = Inr rows \<longrightarrow> setLogsAsReported [] st = Inr st) \<and>
   (table_rows st = Inl err \<longrightarrow>
      setLogsAsReported [] st =
        Inl (Error (''error, cannot mark logs as updated in history.db: '' @ message err)))"
proof (intro conjI impI)
  show "updateRowsSQL [] = ''UPDATE history SET reported = 1 WHERE id IN ()''"
    by (simp add: updateRowsSQL_def)
next
  assume rows: "table_rows st = Inr rows"
  then have "history st = Some rows"
    by (simp add: table_rows_Inr)
  moreover have "mark_row [] = (\<lambda>r. r)"
    by (simp add: fun_eq_iff mark_row_def)
  then have "map (mark_row []) rows = rows"
    by simp
  ultimately have "st\<lparr>history := Some (map (mark_row []) rows)\<rparr> = st"
    by simp
  then show "setLogsAsReported [] st = Inr st"
    using rows by (simp add: setLogsAsReported_def run_updateRowsSQL_def)
next
  assume "table_rows st = Inl err"
  then show "setLogsAsReported [] st =
        Inl (Error (''error, cannot mark logs as updated in history.db: '' @ message err))"
    by (simp add: setLogsAsReported_def run_updateRowsSQL_def)
qed

theorem setLogsAsReported_empty_witness:
  "table_rows empty_store = Inr [] \<and> setLogsAsReported [] empty_store = Inr empty_store \<and>
   table_rows new_store = Inl no_such_table \<and>
   setLogsAsReported [] new_store =
     Inl (Error (''error, cannot mark logs as updated in history.db: '' @ message no_such_table))"
proof -
  have r: "table_rows empty_store = Inr []"
    by (simp add: table_rows_def empty_store_def)
  have u: "table_rows new_store = Inl no_such_table"
    by (simp add: table_rows_def new_store_def)
  show ?thesis
    using r u setLogsAsReported_empty [where st = empty_store and rows = "[]"]
      setLogsAsReported_empty [where st = new_store and err = no_such_table]
    by blast
qed

subsection \<open>Opening the store\<close>

text \<open>
  Claim C4, as stated, fails: when the driver reports that the file cannot be opened,
  \<open>openLogfile\<close> does not fail. Its promise is fulfilled and the error is only logged,
  at level info.
\<close>

theorem openLogfile_error_counterexample:
  "openLogfile (Some ''SQLITE_CANTOPEN: unable to open database file'') new_store =
     (Inr (),
      \<lparr>history = None,
       logged = [Log_info [''warning: cannot open logfile. error:'',
                           ''SQLITE_CANTOPEN: unable to open database file'']]\<rparr>)"
  by (simp add: openLogfile_def new_store_def)

text \<open>
  Claim C4, amended. The promise of \<open>openLogfile\<close> is always fulfilled. When the
  driver reports an open error, the function logs
  \<^verbatim>\<open>warning: cannot open logfile. error:\<close> with the message, and nothing else
  changes. When the file is opened, the table \<^verbatim>\<open>history\<close> is created only if it is
  absent, the rows of an existing table are kept, and opening again changes nothing.
\<close>

theorem openLogfile_never_fails:
  "fst (openLogfile err st) = Inr () \<and>
   (err = Some m \<longrightarrow>
      snd (openLogfile err st) =
        st\<lparr>logged := logged st @ [Log_info [''warning: cannot open logfile. error:'', m]]\<rparr>) \<and>
   (err = None \<longrightarrow>
      snd (openLogfile err st) =
        st\<lparr>history := Some (case history st of None \<Rightarrow> [] | Some rows \<Rightarrow> rows)\<rparr> \<and>
      snd (openLogfile None (snd (openLogfile err st))) = snd (openLogfile err st))"
proof (intro conjI impI)
  show "fst (openLogfile err st) = Inr ()"
    by (simp add: openLogfile_def split: option.splits)
next
  assume "err = Some m"
  then show "snd (openLogfile err st) =
        st\<lparr>logged := logged st @ [Log_info [''warning: cannot open logfile. error:'', m]]\<rparr>"
    by (simp add: openLogfile_def)
next
  assume "err = None"
  then show "snd (openLogfile err st) =
        st\<lparr>history := Some (case history st of None \<Rightarrow> [] | Some rows \<Rightarrow> rows)\<rparr>"
    by (simp add: openLogfile_def createTable_def run_createTableSQL_def)
next
  assume "err = None"
  then show "snd (openLogfile None (snd (openLogfile err st))) = snd (openLogfile err st)"
    by (simp add: openLogfile_def createTable_def run_createTableSQL_def split: option.splits)
qed

theorem openLogfile_never_fails_witness:
  "fst (openLogfile (Some ''SQLITE_CANTOPEN: unable to open database file'') new_store) = Inr () \<and>
   snd (openLogfile (Some ''SQLITE_CANTOPEN: unable to open database file'') new_store) =
     \<lparr>history = None,
      logged = [Log_info [''warning: cannot open logfile. error:'',
                          ''SQLITE_CANTOPEN: unable to open database file'']]\<rparr> \<and>
   openLogfile None new_store = (Inr (), empty_store) \<and>
   openLogfile None sample_store = (Inr (), sample_store) \<and>
   snd (openLogfile None (snd (openLogfile None sample_store))) = snd (openLogfile None sample_store)"
  using openLogfile_never_fails
          [where err = "Some ''SQLITE_CANTOPEN: unable to open database file''" and
            st = new_store and m = "''SQLITE_CANTOPEN: unable to open database file''"]
        openLogfile_never_fails [where err = None and st = sample_store]
        openLogfile_never_fails [where err = None and st = new_store]
  by (simp add: new_store_def sample_store_def empty_store_def prod_eq_iff)

subsection \<open>The reported flag\<close>

lemma mark_row_id [simp]: "row_id (mark_row ids r) = row_id r"
  by (simp add: mark_row_def)

lemma mark_row_reported: "reported r = 1 \<Longrightarrow> reported (mark_row ids r) = 1"
  by (simp add: mark_row_def)

lemma run_call_settled:
  assumes "settled i st"
  shows "settled i (run_call c st)"
proof -
  from assms obtain rows where
    h: "history st = Some rows" and ex: "i \<in> row_id ` set rows" and
    all: "\<forall>r\<in>set rows. row_id r = i \<longrightarrow> reported r = 1"
    by (auto simp: settled_def)
  from run_call_rows [OF h, of c] obtain kept extra where
    h': "history (run_call c st) = Some (kept @ extra)" and
    k: "kept = rows \<or> (\<exists>ids. c = Call_setLogsAsReported ids \<and> kept = map (mark_row ids) rows)" and
    e: "\<forall>x\<in>set extra. reported x = 0 \<and> (\<forall>r\<in>set rows. row_id r < row_id x)"
    by blast
  from k have ids: "row_id ` set kept = row_id ` set rows"
    by (auto simp: image_image)
  from k all have kept_ok: "\<forall>r\<in>set kept. row_id r = i \<longrightarrow> reported r = 1"
    by (auto simp: mark_row_reported)
  from e ex have extra_ok: "\<forall>x\<in>set extra. row_id x \<noteq> i"
    by fastforce
  have "i \<in> row_id ` set (kept @ extra)"
    using ex ids by auto
  moreover have "\<forall>r\<in>set (kept @ extra). row_id r = i \<longrightarrow> reported r = 1"
    using kept_ok extra_ok by auto
  ultimately show ?thesis
    using h' unfolding settled_def by blast
qed

lemma run_calls_settled: "settled i st \<Longrightarrow> settled i (run_calls calls st)"
  by (induction calls arbitrary: st) (simp_all add: run_call_settled)

lemma getUnreportedLogs_Inr:
  "getUnreportedLogs st = Inr batch \<longleftrightarrow>
     (\<exists>rows. table_rows st = Inr rows \<and>
        batch = map select_unreported (filter (\<lambda>r. reported r = 0) rows))"
  by (auto simp: getUnreportedLogs_def split: sum.splits)

lemma rep_id_select [simp]: "rep_id (select_unreported r) = row_id r"
  by (simp add: select_unreported_def)

lemma settled_not_unreported:
  assumes "settled i st" and "getUnreportedLogs st = Inr batch"
  shows "i \<notin> rep_id ` set batch"
proof
  assume "i \<in> rep_id ` set batch"
  moreover from assms(2) obtain rows where
    r: "table_rows st = Inr rows" and
    b: "batch = map select_unreported (filter (\<lambda>r. reported r = 0) rows)"
    by (auto simp: getUnreportedLogs_Inr)
  ultimately obtain x where "x \<in> set rows" "reported x = 0" "row_id x = i"
    by auto
  moreover from r have "history st = Some rows"
    by (simp add: table_rows_Inr)
  ultimately show False
    using assms(1) by (auto simp: settled_def)
qed

text \<open>
  Claim C5, as stated, fails: \<open>setLogsAsReported\<close> is fulfilled for an id that no
  row has, and such an id is free for a later row. On a table whose only row has the id
  1, the call with the ids 1 and 2 is fulfilled; the next insert gets the id 2, and
  \<open>getUnreportedLogs\<close> then returns the row with the id 2, an id that was passed to
  a fulfilled mark.
\<close>

theorem marked_absent_id_counterexample:
  "setLogsAsReported [1, 2] sample_store =
     Inr (sample_store\<lparr>history := Some [sample_row\<lparr>reported := 1\<rparr>]\<rparr>) \<and>
   getUnreportedLogs
     (run_calls [Call_saveLog sample_probe sample_response 0 [] ''2021-05-02T00:00:00.000Z'']
        (sample_store\<lparr>history := Some [sample_row\<lparr>reported := 1\<rparr>]\<rparr>)) =
     Inr [select_unreported
            (inserted_row [sample_row\<lparr>reported := 1\<rparr>]
               (saveLog_params sample_probe sample_response [] ''2021-05-02T00:00:00.000Z''))] \<and>
   rep_id (select_unreported
            (inserted_row [sample_row\<lparr>reported := 1\<rparr>]
               (saveLog_params sample_probe sample_response [] ''2021-05-02T00:00:00.000Z''))) = 2"
proof (intro conjI)
  show "setLogsAsReported [1, 2] sample_store =
     Inr (sample_store\<lparr>history := Some [sample_row\<lparr>reported := 1\<rparr>]\<rparr>)"
    by (simp add: setLogsAsReported_def run_updateRowsSQL_def table_rows_def sample_store_def
        mark_row_def sample_row_def)
next
  show "getUnreportedLogs
     (run_calls [Call_saveLog sample_probe sample_response 0 [] ''2021-05-02T00:00:00.000Z'']
        (sample_store\<lparr>history := Some [sample_row\<lparr>reported := 1\<rparr>]\<rparr>)) =
     Inr [select_unreported
            (inserted_row [sample_row\<lparr>reported := 1\<rparr>]
               (saveLog_params sample_probe sample_response [] ''2021-05-02T00:00:00.000Z''))]"
    by (simp add: getUnreportedLogs_def table_rows_def saveLog_history sample_store_def)
next
  show "rep_id (select_unreported
            (inserted_row [sample_row\<lparr>reported := 1\<rparr>]
               (saveLog_params sample_probe sample_response [] ''2021-05-02T00:00:00.000Z''))) = 2"
    by (simp add: next_row_id_def sample_row_def)
qed

text \<open>
  Claim C5, amended. After a fulfilled \<open>setLogsAsReported ids\<close>, no row that was in
  the table at the time of the call and whose id is in \<open>ids\<close> is in the result of any
  later \<open>getUnreportedLogs\<close>, whatever inserts, reads and marks come in between; and
  the result of \<open>getUnreportedLogs\<close> is made of exactly the rows of the table whose
  flag is 0. An id of \<open>ids\<close> that no row had at the time of the call is not covered.
\<close>

theorem marked_rows_stay_out:
  assumes rows: "table_rows st = Inr rows"
    and marked: "setLogsAsReported ids st = Inr st'"
    and batch: "getUnreportedLogs (run_calls calls st') = Inr batch"
  shows "(\<forall>r\<in>set rows. row_id r \<in> set ids \<longrightarrow> row_id r \<notin> rep_id ` set batch) \<and>
         (\<exists>rows'. history (run_calls calls st') = Some rows' \<and>
            set batch = select_unreported ` {r \<in> set rows'. reported r = 0})"
proof
  from marked rows have st': "history st' = Some (map (mark_row ids) rows)"
    by (auto simp: setLogsAsReported_Inr)
  show "\<forall>r\<in>set rows. row_id r \<in> set ids \<longrightarrow> row_id r \<notin> rep_id ` set batch"
  proof (intro ballI impI)
    fix r
    assume r: "r \<in> set rows" and i: "row_id r \<in> set ids"
    have "row_id r \<in> row_id ` set (map (mark_row ids) rows)"
      using r by (auto simp: image_image)
    moreover have "\<forall>x\<in>set (map (mark_row ids) rows). row_id x = row_id r \<longrightarrow> reported x = 1"
      using i by (auto simp: mark_row_def)
    ultimately have "settled (row_id r) st'"
      using st' unfolding settled_def by blast
    then have "settled (row_id r) (run_calls calls st')"
      by (rule run_calls_settled)
    then show "row_id r \<notin> rep_id ` set batch"
      using batch by (rule settled_not_unreported)
  qed
next
  from batch obtain rows' where
    r: "table_rows (run_calls calls st') = Inr rows'" and
    b: "batch = map select_unreported (filter (\<lambda>r. reported r = 0) rows')"
    by (auto simp: getUnreportedLogs_Inr)
  from r have "history (run_calls calls st') = Some rows'"
    by (simp add: table_rows_Inr)
  moreover from b have "set batch = select_unreported ` {r \<in> set rows'. reported r = 0}"
    by auto
  ultimately show "\<exists>rows'. history (run_calls calls st') = Some rows' \<and>
            set batch = select_unreported ` {r \<in> set rows'. reported r = 0}"
    by blast
qed

theorem marked_rows_stay_out_witness:
  "table_rows sample_store = Inr [sample_row] \<and>
   setLogsAsReported [1] sample_store =
     Inr (sample_store\<lparr>history := Some [sample_row\<lparr>reported := 1\<rparr>]\<rparr>) \<and>
   getUnreportedLogs
     (run_calls [Call_saveLog sample_probe sample_response 0 [] ''2021-05-02T00:00:00.000Z'']
        (sample_store\<lparr>history := Some [sample_row\<lparr>reported := 1\<rparr>]\<rparr>)) =
     Inr [select_unreported
            (inserted_row [sample_row\<lparr>reported := 1\<rparr>]
               (saveLog_params sample_probe sample_response [] ''2021-05-02T00:00:00.000Z''))] \<and>
   row_id sample_row = 1 \<and>
   rep_id (select_unreported
            (inserted_row [sample_row\<lparr>reported := 1\<rparr>]
               (saveLog_params sample_probe sample_response [] ''2021-05-02T00:00:00.000Z''))) = 2"
proof -
  have a: "table_rows sample_store = Inr [sample_row]"
    by (simp add: table_rows_def sample_store_def)
  have b: "setLogsAsReported [1] sample_store =
     Inr (sample_store\<lparr>history := Some [sample_row\<lparr>reported := 1\<rparr>]\<rparr>)"
    by (simp add: setLogsAsReported_def run_updateRowsSQL_def a mark_row_def sample_row_def)
  have c: "getUnreportedLogs
     (run_calls [Call_saveLog sample_probe sample_response 0 [] ''2021-05-02T00:00:00.000Z'']
        (sample_store\<lparr>history := Some [sample_row\<lparr>reported := 1\<rparr>]\<rparr>)) =
     Inr [select_unreported
            (inserted_row [sample_row\<lparr>reported := 1\<rparr>]
               (saveLog_params sample_probe sample_response [] ''2021-05-02T00:00:00.000Z''))]"
    by (simp add: getUnreportedLogs_def table_rows_def saveLog_history sample_store_def)
  have d: "row_id sample_row = 1"
    by (simp add: sample_row_def)
  have e: "rep_id (select_unreported
            (inserted_row [sample_row\<lparr>reported := 1\<rparr>]
               (saveLog_params sample_probe sample_response [] ''2021-05-02T00:00:00.000Z''))) = 2"
    by (simp add: next_row_id_def sample_row_def)
  from marked_rows_stay_out [OF a b c] have "row_id sample_row \<noteq> 2"
    using d e by simp
  with a b c d e show ?thesis
    by blast
qed

text \<open>
  Claim C9. In a table that exists, a call other than \<open>setLogsAsReported\<close> leaves
  every row as it is, and the row an insert adds has the flag 0. Over any sequence of
  inserts, reads and marks every row stays in its place and is either unchanged or
  unchanged but for \<open>reported = 1\<close>; a row whose flag is 1 is never changed again.
\<close>

theorem reported_flag_only_raised:
  assumes "history st = Some rows"
  shows "((\<forall>ids. call \<noteq> Call_setLogsAsReported ids) \<longrightarrow>
            (\<exists>extra. history (run_call call st) = Some (rows @ extra) \<and>
               (\<forall>x\<in>set extra. reported x = 0))) \<and>
         (\<exists>kept extra. history (run_calls calls st) = Some (kept @ extra) \<and>
            length kept = length rows \<and>
            (\<forall>k<length rows.
               (kept ! k = rows ! k \<or> kept ! k = (rows ! k)\<lparr>reported := 1\<rparr>) \<and>
               (reported (rows ! k) = 1 \<longrightarrow> kept ! k = rows ! k)))"
proof
  show "(\<forall>ids. call \<noteq> Call_setLogsAsReported ids) \<longrightarrow>
            (\<exists>extra. history (run_call call st) = Some (rows @ extra) \<and>
               (\<forall>x\<in>set extra. reported x = 0))"
    using run_call_rows [OF assms, of call] by blast
next
  from run_calls_raises [OF assms, of calls] obtain kept extra where
    h: "history (run_calls calls st) = Some (kept @ extra)" and
    k: "list_all2 flag_raised rows kept"
    by blast
  from k have len: "length kept = length rows"
    by (simp add: list_all2_lengthD)
  have "\<forall>k<length rows.
               (kept ! k = rows ! k \<or> kept ! k = (rows ! k)\<lparr>reported := 1\<rparr>) \<and>
               (reported (rows ! k) = 1 \<longrightarrow> kept ! k = rows ! k)"
  proof (intro allI impI)
    fix j
    assume "j < length rows"
    with k have "flag_raised (rows ! j) (kept ! j)"
      by (simp add: list_all2_nthD)
    then show "(kept ! j = rows ! j \<or> kept ! j = (rows ! j)\<lparr>reported := 1\<rparr>) \<and>
               (reported (rows ! j) = 1 \<longrightarrow> kept ! j = rows ! j)"
      by (auto simp: flag_raised_def)
  qed
  with h len show "\<exists>kept extra. history (run_calls calls st) = Some (kept @ extra) \<and>
            length kept = length rows \<and>
            (\<forall>k<length rows.
               (kept ! k = rows ! k \<or> kept ! k = (rows ! k)\<lparr>reported := 1\<rparr>) \<and>
               (reported (rows ! k) = 1 \<longrightarrow> kept ! k = rows ! k))"
    by blast
qed

theorem reported_flag_only_raised_witness:
  "history sample_store = Some [sample_row] \<and>
   map_option (map (\<lambda>r. (row_id r, reported r)))
     (history (run_call (Call_saveLog sample_probe sample_response 0 [] ''2021-05-02T00:00:00.000Z'')
        sample_store)) = Some [(1, 0), (2, 0)] \<and>
   map_option (map (\<lambda>r. (row_id r, reported r)))
     (history (run_calls
        [Call_setLogsAsReported [1],
         Call_saveLog sample_probe sample_response 0 [] ''2021-05-02T00:00:00.000Z'',
         Call_getUnreportedLogs,
         Call_setLogsAsReported [7]] sample_store)) = Some [(1, 1), (2, 0)]"
proof -
  have h: "history sample_store = Some [sample_row]"
    by (simp add: sample_store_def)
  have one: "map_option (map (\<lambda>r. (row_id r, reported r)))
     (history (run_call (Call_saveLog sample_probe sample_response 0 [] ''2021-05-02T00:00:00.000Z'')
        sample_store)) = Some [(1, 0), (2, 0)]"
    by (simp add: saveLog_history table_rows_def sample_store_def sample_row_def
        next_row_id_def)
  have many: "map_option (map (\<lambda>r. (row_id r, reported r)))
     (history (run_calls
        [Call_setLogsAsReported [1],
         Call_saveLog sample_probe sample_response 0 [] ''2021-05-02T00:00:00.000Z'',
         Call_getUnreportedLogs,
         Call_setLogsAsReported [7]] sample_store)) = Some [(1, 1), (2, 0)]"
    by (simp add: saveLog_history setLogsAsReported_def run_updateRowsSQL_def table_rows_def
        sample_store_def sample_row_def next_row_id_def mark_row_def)
  show ?thesis
    using h one many
      reported_flag_only_raised [OF h,
        of "Call_saveLog sample_probe sample_response 0 [] ''2021-05-02T00:00:00.000Z''"
           "[Call_setLogsAsReported [1],
             Call_saveLog sample_probe sample_response 0 [] ''2021-05-02T00:00:00.000Z'',
             Call_getUnreportedLogs,
             Call_setLogsAsReported [7]]"]
    by blast
qed

section \<open>Properties of the reporter\<close>

subsection \<open>Basic facts\<close>

lemma try_report_sent:
  assumes "hm_getUnreportedLogs hm (the_store w) = Inr batch"
  shows "sent (snd (try_report hm md5Hash collector sc config w)) =
           sent w @ [report_request (symon_url sc) (symon_key sc) (symon_id sc)
                       (configVersion md5Hash config)
                       \<lparr>requests = map omit_id (requests batch),
                        notifications = map omit_id (notifications batch)\<rparr>]"
  using assms by (simp add: try_report_def Let_def split: sum.splits prod.splits)

lemma getLogsAndReport_sent:
  assumes "symon config = Some sc"
  shows "sent (snd (getLogsAndReport hm md5Hash collector config w)) =
           sent (snd (try_report hm md5Hash collector sc config w))"
  using assms by (simp add: getLogsAndReport_def split: prod.splits sum.splits)

lemma getLogsAndReport_request:
  assumes symon: "symon config = Some sc"
    and batch: "hm_getUnreportedLogs hm (the_store w) = Inr batch"
  shows "sent (snd (getLogsAndReport hm md5Hash collector config w)) =
           sent w @ [report_request (symon_url sc) (symon_key sc) (symon_id sc)
                       (configVersion md5Hash config)
                       \<lparr>requests = map omit_id (requests batch),
                        notifications = map omit_id (notifications batch)\<rparr>]"
  by (simp add: getLogsAndReport_sent [OF symon] try_report_sent [OF batch])

lemma getLogsAndReport_fulfilled: "fst (getLogsAndReport hm md5Hash collector config w) = Inr ()"
  by (simp add: getLogsAndReport_def split: option.splits prod.splits sum.splits)

lemma try_report_rejected:
  assumes "hm_getUnreportedLogs hm (the_store w) = Inr batch"
    and "report collector (symon_url sc) (symon_key sc) (symon_id sc) (configVersion md5Hash config)
           \<lparr>requests = map omit_id (requests batch),
            notifications = map omit_id (notifications batch)\<rparr> = Inl err"
  shows "try_report hm md5Hash collector sc config w =
           (Inl err,
            w\<lparr>sent := sent w @ [report_request (symon_url sc) (symon_key sc) (symon_id sc)
                       (configVersion md5Hash config)
                       \<lparr>requests = map omit_id (requests batch),
                        notifications = map omit_id (notifications batch)\<rparr>]\<rparr>)"
  using assms by (simp add: try_report_def Let_def)

lemma omit_id_nth:
  assumes "k < length rows"
  shows "(map omit_id rows ! k) ''id'' = None \<and>
         (\<forall>name. name \<noteq> ''id'' \<longrightarrow> (map omit_id rows ! k) name = (rows ! k) name)"
proof -
  from assms have "map omit_id rows ! k = omit_id (rows ! k)"
    by simp
  then show ?thesis
    by (simp add: omit_id_def)
qed

lemma two_tables_empty:
  "hm_getUnreportedLogs two_tables (empty_store, empty_store) =
     Inr \<lparr>requests = [], notifications = []\<rparr>"
  by (simp add: two_tables_def getUnreportedLogs_def table_rows_def empty_store_def)

lemma two_tables_sample:
  "hm_getUnreportedLogs two_tables (empty_store, sample_store) =
     Inr \<lparr>requests = [], notifications = [row_object (select_unreported sample_row)]\<rparr>"
  by (simp add: two_tables_def getUnreportedLogs_def table_rows_def empty_store_def sample_store_def
      sample_row_def)

subsection \<open>An empty batch\<close>

subsection \<open>An empty batch\<close>

text \<open>
  Claim C1, as stated, fails: with a collector configured and both tables empty,
  \<open>getLogsAndReport\<close> posts one report, with no requests and no notifications in it.
\<close>

theorem getLogsAndReport_empty_batch_counterexample:
  "hm_getUnreportedLogs two_tables (empty_store, empty_store) =
     Inr \<lparr>requests = [], notifications = []\<rparr> \<and>
   getLogsAndReport two_tables sample_md5Hash collector_accepts sample_config
       (sample_world empty_store empty_store) =
     (Inr (),
      \<lparr>the_store = (empty_store, empty_store),
       sent = [report_request ''https://symon.example'' ''secret'' ''monika-1'' ''1.0.0''
                 \<lparr>requests = [], notifications = []\<rparr>],
       warned = []\<rparr>)"
  by (simp add: getLogsAndReport_def try_report_def mark_all_def report_def axios_post_def
      configVersion_def two_tables_def getUnreportedLogs_def setLogsAsReported_def
      run_updateRowsSQL_def table_rows_def ids_of_def List.map_filter_def
      empty_store_def sample_config_def sample_symon_def sample_world_def collector_accepts_def)

text \<open>
  Claim C1, amended. When the configuration has no \<^verbatim>\<open>symon\<close> section,
  \<open>getLogsAndReport\<close> does nothing at all. With a collector configured and an empty
  unreported batch it makes one network call, a report whose \<^verbatim>\<open>requests\<close> and
  \<^verbatim>\<open>notifications\<close> are empty; its promise is fulfilled with no outcome value.
\<close>

theorem getLogsAndReport_empty_batch:
  "(symon config = None \<longrightarrow> getLogsAndReport hm md5Hash collector config w = (Inr (), w)) \<and>
   (symon config = Some sc \<and>
    hm_getUnreportedLogs hm (the_store w) = Inr \<lparr>requests = [], notifications = []\<rparr> \<longrightarrow>
      fst (getLogsAndReport hm md5Hash collector config w) = Inr () \<and>
      sent (snd (getLogsAndReport hm md5Hash collector config w)) =
        sent w @ [report_request (symon_url sc) (symon_key sc) (symon_id sc)
                    (configVersion md5Hash config) \<lparr>requests = [], notifications = []\<rparr>])"
proof (intro conjI impI)
  assume "symon config = None"
  then show "getLogsAndReport hm md5Hash collector config w = (Inr (), w)"
    by (simp add: getLogsAndReport_def)
next
  assume a: "symon config = Some sc \<and>
    hm_getUnreportedLogs hm (the_store w) = Inr \<lparr>requests = [], notifications = []\<rparr>"
  show "fst (getLogsAndReport hm md5Hash collector config w) = Inr ()"
    by (rule getLogsAndReport_fulfilled)
  from a show "sent (snd (getLogsAndReport hm md5Hash collector config w)) =
        sent w @ [report_request (symon_url sc) (symon_key sc) (symon_id sc)
                    (configVersion md5Hash config) \<lparr>requests = [], notifications = []\<rparr>]"
    using try_report_sent [of hm w "\<lparr>requests = [], notifications = []\<rparr>" md5Hash collector sc config]
      getLogsAndReport_sent [of config sc hm md5Hash collector w]
    by simp
qed

theorem getLogsAndReport_empty_batch_witness:
  "symon sample_config = Some sample_symon \<and>
   hm_getUnreportedLogs two_tables (the_store (sample_world empty_store empty_store)) =
     Inr \<lparr>requests = [], notifications = []\<rparr> \<and>
   fst (getLogsAndReport two_tables sample_md5Hash collector_accepts sample_config
          (sample_world empty_store empty_store)) = Inr () \<and>
   sent (snd (getLogsAndReport two_tables sample_md5Hash collector_accepts sample_config
          (sample_world empty_store empty_store))) =
     [report_request ''https://symon.example'' ''secret'' ''monika-1'' ''1.0.0''
        \<lparr>requests = [], notifications = []\<rparr>] \<and>
   symon (sample_config\<lparr>symon := None\<rparr>) = None \<and>
   getLogsAndReport two_tables sample_md5Hash collector_accepts (sample_config\<lparr>symon := None\<rparr>)
       (sample_world empty_store empty_store) = (Inr (), sample_world empty_store empty_store)"
proof -
  have s: "symon sample_config = Some sample_symon"
    by (simp add: sample_config_def)
  have b: "hm_getUnreportedLogs two_tables (the_store (sample_world empty_store empty_store)) =
     Inr \<lparr>requests = [], notifications = []\<rparr>"
    by (simp add: sample_world_def two_tables_empty)
  have n: "symon (sample_config\<lparr>symon := None\<rparr>) = None"
    by simp
  have v: "configVersion sample_md5Hash sample_config = ''1.0.0''"
    by (simp add: configVersion_def sample_config_def)
  show ?thesis
    using s b n
      getLogsAndReport_empty_batch [where config = sample_config and sc = sample_symon and
        hm = two_tables and w = "sample_world empty_store empty_store" and
        md5Hash = sample_md5Hash and collector = collector_accepts]
      getLogsAndReport_empty_batch [where config = "sample_config\<lparr>symon := None\<rparr>" and
        hm = two_tables and w = "sample_world empty_store empty_store" and
        md5Hash = sample_md5Hash and collector = collector_accepts]
    by (simp add: v sample_symon_def sample_world_def)
qed

subsection \<open>A failed upload\<close>

subsection \<open>A failed upload\<close>

text \<open>
  Claim C2. When the batch was read and the post of the report fails, by a network
  error or by a response whose status is outside 200..299, then \<open>getLogsAndReport\<close>
  leaves the store as it was, so the next read gives the same batch; it logs one warning
  that contains \<^verbatim>\<open>Can't report history to Symon\<close>; and its promise is fulfilled.
\<close>

theorem getLogsAndReport_upload_fails:
  assumes symon: "symon config = Some sc"
    and batch: "hm_getUnreportedLogs hm (the_store w) = Inr batch"
    and fails: "collector (report_request (symon_url sc) (symon_key sc) (symon_id sc)
                   (configVersion md5Hash config)
                   \<lparr>requests = map omit_id (requests batch),
                    notifications = map omit_id (notifications batch)\<rparr>) = Network_error m \<or>
                (collector (report_request (symon_url sc) (symon_key sc) (symon_id sc)
                   (configVersion md5Hash config)
                   \<lparr>requests = map omit_id (requests batch),
                    notifications = map omit_id (notifications batch)\<rparr>) = Http_response code body \<and>
                 (code < 200 \<or> 300 \<le> code))"
  shows "fst (getLogsAndReport hm md5Hash collector config w) = Inr () \<and>
         the_store (snd (getLogsAndReport hm md5Hash collector config w)) = the_store w \<and>
         hm_getUnreportedLogs hm (the_store (snd (getLogsAndReport hm md5Hash collector config w))) =
           Inr batch \<and>
         (\<exists>reason. warned (snd (getLogsAndReport hm md5Hash collector config w)) =
            warned w @
              [Log_warn [[CHR 0x20, CHR 0xE2, CHR 0x80, CHR 0xBA] @ ''   Warning: '' @
                         ''Can't report history to Symon'' @ ''. '' @ reason]])"
proof -
  let ?req = "report_request (symon_url sc) (symon_key sc) (symon_id sc)
                   (configVersion md5Hash config)
                   \<lparr>requests = map omit_id (requests batch),
                    notifications = map omit_id (notifications batch)\<rparr>"
  let ?R = "getLogsAndReport hm md5Hash collector config w"
  from fails obtain err where err: "axios_post (collector ?req) = Inl err"
    by (auto simp: axios_post_def)
  then have "report collector (symon_url sc) (symon_key sc) (symon_id sc) (configVersion md5Hash config)
           \<lparr>requests = map omit_id (requests batch),
            notifications = map omit_id (notifications batch)\<rparr> = Inl err"
    by (simp add: report_def)
  with batch have "try_report hm md5Hash collector sc config w = (Inl err, w\<lparr>sent := sent w @ [?req]\<rparr>)"
    by (rule try_report_rejected)
  with symon have R: "?R = (Inr (), w\<lparr>sent := sent w @ [?req],
                       warned := warned w @ [Log_warn [warning_prefix @ message err]]\<rparr>)"
    by (simp add: getLogsAndReport_def)
  have "warning_prefix @ message err =
          [CHR 0x20, CHR 0xE2, CHR 0x80, CHR 0xBA] @ ''   Warning: '' @
            ''Can't report history to Symon'' @ ''. '' @ message err"
    by (simp add: warning_prefix_def)
  with R have "warned (snd ?R) =
            warned w @
              [Log_warn [[CHR 0x20, CHR 0xE2, CHR 0x80, CHR 0xBA] @ ''   Warning: '' @
                         ''Can't report history to Symon'' @ ''. '' @ message err]]"
    by simp
  then have "\<exists>reason. warned (snd ?R) =
            warned w @
              [Log_warn [[CHR 0x20, CHR 0xE2, CHR 0x80, CHR 0xBA] @ ''   Warning: '' @
                         ''Can't report history to Symon'' @ ''. '' @ reason]]"
    by (rule exI)
  moreover from R have "fst ?R = Inr ()" and "the_store (snd ?R) = the_store w"
    by simp_all
  moreover from this batch have "hm_getUnreportedLogs hm (the_store (snd ?R)) = Inr batch"
    by simp
  ultimately show ?thesis by blast
qed

theorem getLogsAndReport_upload_fails_witness:
  "symon sample_config = Some sample_symon \<and>
   hm_getUnreportedLogs two_tables (the_store (sample_world empty_store sample_store)) =
     Inr \<lparr>requests = [], notifications = [row_object (select_unreported sample_row)]\<rparr> \<and>
   collector_rejects
     (report_request (symon_url sample_symon) (symon_key sample_symon) (symon_id sample_symon)
        (configVersion sample_md5Hash sample_config)
        \<lparr>requests = map omit_id [],
         notifications = map omit_id [row_object (select_unreported sample_row)]\<rparr>) =
     Http_response 500 \<lparr>result = ''error'', response_message = []\<rparr> \<and>
   getLogsAndReport two_tables sample_md5Hash collector_rejects sample_config
       (sample_world empty_store sample_store) =
     (Inr (),
      \<lparr>the_store = (empty_store, sample_store),
       sent = [report_request ''https://symon.example'' ''secret'' ''monika-1'' ''1.0.0''
                 \<lparr>requests = [],
                  notifications = [omit_id (row_object (select_unreported sample_row))]\<rparr>],
       warned = [Log_warn [[CHR 0x20, CHR 0xE2, CHR 0x80, CHR 0xBA] @
                   ''   Warning: Can't report history to Symon. Request failed with status code 500'']]\<rparr>)"
proof -
  have s: "symon sample_config = Some sample_symon"
    by (simp add: sample_config_def)
  have b: "hm_getUnreportedLogs two_tables (the_store (sample_world empty_store sample_store)) =
     Inr \<lparr>requests = [], notifications = [row_object (select_unreported sample_row)]\<rparr>"
    by (simp add: sample_world_def two_tables_sample)
  have run: "getLogsAndReport two_tables sample_md5Hash collector_rejects sample_config
       (sample_world empty_store sample_store) =
     (Inr (),
      \<lparr>the_store = (empty_store, sample_store),
       sent = [report_request ''https://symon.example'' ''secret'' ''monika-1'' ''1.0.0''
                 \<lparr>requests = [],
                  notifications = [omit_id (row_object (select_unreported sample_row))]\<rparr>],
       warned = [Log_warn [[CHR 0x20, CHR 0xE2, CHR 0x80, CHR 0xBA] @
                   ''   Warning: Can't report history to Symon. Request failed with status code 500'']]\<rparr>)"
    by (simp add: getLogsAndReport_def try_report_def report_def axios_post_def
      configVersion_def two_tables_sample warning_prefix_def number_to_string_def digit_def
      sample_config_def sample_symon_def sample_world_def collector_rejects_def)
  show ?thesis
    using s b run
      getLogsAndReport_upload_fails [where hm = two_tables and md5Hash = sample_md5Hash and
        collector = collector_rejects and config = sample_config and sc = sample_symon and
        w = "sample_world empty_store sample_store" and code = 500 and m = "[]" and
        body = "\<lparr>result = ''error'', response_message = []\<rparr>", OF s b]
    by (simp add: collector_rejects_def)
qed

subsection \<open>The payload\<close>

subsection \<open>The payload\<close>

text \<open>
  Claim C6. The report \<open>getLogsAndReport\<close> posts has one object for each request row
  and each notification row of the batch, in the same order; none of these objects has
  a property \<^verbatim>\<open>id\<close>, and each has every other property of its row with the same
  value.
\<close>

theorem report_payload_omits_id:
  assumes symon: "symon config = Some sc"
    and batch: "hm_getUnreportedLogs hm (the_store w) = Inr batch"
  shows "\<exists>req. sent (snd (getLogsAndReport hm md5Hash collector config w)) = sent w @ [req] \<and>
           length (requests (data (request_body req))) = length (requests batch) \<and>
           length (notifications (data (request_body req))) = length (notifications batch) \<and>
           (\<forall>k<length (requests batch).
              (requests (data (request_body req)) ! k) ''id'' = None \<and>
              (\<forall>name. name \<noteq> ''id'' \<longrightarrow>
                 (requests (data (request_body req)) ! k) name = (requests batch ! k) name)) \<and>
           (\<forall>k<length (notifications batch).
              (notifications (data (request_body req)) ! k) ''id'' = None \<and>
              (\<forall>name. name \<noteq> ''id'' \<longrightarrow>
                 (notifications (data (request_body req)) ! k) name = (notifications batch ! k) name))"
proof -
  define req where "req = report_request (symon_url sc) (symon_key sc) (symon_id sc)
                (configVersion md5Hash config)
                \<lparr>requests = map omit_id (requests batch),
                 notifications = map omit_id (notifications batch)\<rparr>"
  have sent: "sent (snd (getLogsAndReport hm md5Hash collector config w)) = sent w @ [req]"
    unfolding req_def using symon batch by (rule getLogsAndReport_request)
  have rq: "requests (data (request_body req)) = map omit_id (requests batch)"
    by (simp add: req_def report_request_def)
  have nt: "notifications (data (request_body req)) = map omit_id (notifications batch)"
    by (simp add: req_def report_request_def)
  have "length (requests (data (request_body req))) = length (requests batch)"
    by (simp add: rq)
  moreover have "length (notifications (data (request_body req))) = length (notifications batch)"
    by (simp add: nt)
  moreover have "\<forall>k<length (requests batch).
              (requests (data (request_body req)) ! k) ''id'' = None \<and>
              (\<forall>name. name \<noteq> ''id'' \<longrightarrow>
                 (requests (data (request_body req)) ! k) name = (requests batch ! k) name)"
    unfolding rq using omit_id_nth by blast
  moreover have "\<forall>k<length (notifications batch).
              (notifications (data (request_body req)) ! k) ''id'' = None \<and>
              (\<forall>name. name \<noteq> ''id'' \<longrightarrow>
                 (notifications (data (request_body req)) ! k) name = (notifications batch ! k) name)"
    unfolding nt using omit_id_nth by blast
  ultimately show ?thesis
    using sent by blast
qed

theorem report_payload_omits_id_witness:
  "symon sample_config = Some sample_symon \<and>
   hm_getUnreportedLogs two_tables (the_store (sample_world empty_store sample_store)) =
     Inr \<lparr>requests = [], notifications = [row_object (select_unreported sample_row)]\<rparr> \<and>
   row_object (select_unreported sample_row) ''id'' = Some (Integer 1) \<and>
   row_object (select_unreported sample_row) ''status_code'' = Some (Integer 200) \<and>
   map (\<lambda>req. map (\<lambda>row. (row ''id'', row ''status_code'')) (notifications (data (request_body req))))
     (sent (snd (getLogsAndReport two_tables sample_md5Hash collector_accepts sample_config
        (sample_world empty_store sample_store)))) = [[(None, Some (Integer 200))]]"
proof -
  have s: "symon sample_config = Some sample_symon"
    by (simp add: sample_config_def)
  have b: "hm_getUnreportedLogs two_tables (the_store (sample_world empty_store sample_store)) =
     Inr \<lparr>requests = [], notifications = [row_object (select_unreported sample_row)]\<rparr>"
    by (simp add: sample_world_def two_tables_sample)
  have i: "row_object (select_unreported sample_row) ''id'' = Some (Integer 1)"
    by (simp add: row_object_def select_unreported_def sample_row_def)
  have c: "row_object (select_unreported sample_row) ''status_code'' = Some (Integer 200)"
    by (simp add: row_object_def select_unreported_def sample_row_def)
  from report_payload_omits_id [OF s b, of sample_md5Hash collector_accepts]
  obtain req where
    sent: "sent (snd (getLogsAndReport two_tables sample_md5Hash collector_accepts sample_config
        (sample_world empty_store sample_store))) = sent (sample_world empty_store sample_store) @ [req]" and
    len: "length (notifications (data (request_body req))) = 1" and
    no_id: "(notifications (data (request_body req)) ! 0) ''id'' = None" and
    rest: "(notifications (data (request_body req)) ! 0) ''status_code'' =
             row_object (select_unreported sample_row) ''status_code''"
    by auto
  from len obtain row where row: "notifications (data (request_body req)) = [row]"
    by (cases "notifications (data (request_body req))") auto
  from sent row no_id rest c
  have "map (\<lambda>req. map (\<lambda>row. (row ''id'', row ''status_code'')) (notifications (data (request_body req))))
     (sent (snd (getLogsAndReport two_tables sample_md5Hash collector_accepts sample_config
        (sample_world empty_store sample_store)))) = [[(None, Some (Integer 200))]]"
    by (simp add: sample_world_def)
  with s b i c show ?thesis by blast
qed

subsection \<open>The configuration version\<close>

subsection \<open>The configuration version\<close>

text \<open>
  Claim C7, as stated, fails: a configuration whose version is the empty string has an
  explicit version string, yet the report carries the hash of the configuration.
\<close>

theorem configVersion_empty_string_counterexample:
  "version (sample_config\<lparr>version := Some []\<rparr>) = Some [] \<and>
   configVersion sample_md5Hash (sample_config\<lparr>version := Some []\<rparr>) =
     ''d41d8cd98f00b204e9800998ecf8427e'' \<and>
   sent (snd (getLogsAndReport two_tables sample_md5Hash collector_accepts
        (sample_config\<lparr>version := Some []\<rparr>) (sample_world empty_store empty_store))) =
     [report_request ''https://symon.example'' ''secret'' ''monika-1''
        ''d41d8cd98f00b204e9800998ecf8427e'' \<lparr>requests = [], notifications = []\<rparr>]"
  by (simp add: getLogsAndReport_def try_report_def mark_all_def report_def axios_post_def
      configVersion_def two_tables_def getUnreportedLogs_def setLogsAsReported_def
      run_updateRowsSQL_def table_rows_def ids_of_def List.map_filter_def
      empty_store_def sample_config_def sample_symon_def sample_world_def collector_accepts_def
      sample_md5Hash_def)

text \<open>
  Claim C7, amended. The \<^verbatim>\<open>config_version\<close> of a report is
  \<^verbatim>\<open>config.version || md5Hash(config)\<close>, a function of the configuration alone: the
  version string when there is one and it is not empty, and \<^verbatim>\<open>md5Hash(config)\<close>
  when the version is absent or the empty string.
\<close>

theorem report_config_version:
  assumes symon: "symon config = Some sc"
    and batch: "hm_getUnreportedLogs hm (the_store w) = Inr batch"
  shows "(\<exists>req. sent (snd (getLogsAndReport hm md5Hash collector config w)) = sent w @ [req] \<and>
            config_version (request_body req) = configVersion md5Hash config) \<and>
         (version config = Some v \<and> v \<noteq> [] \<longrightarrow> configVersion md5Hash config = v) \<and>
         (version config = None \<or> version config = Some [] \<longrightarrow>
            configVersion md5Hash config = md5Hash config)"
proof (intro conjI)
  let ?req = "report_request (symon_url sc) (symon_key sc) (symon_id sc)
                (configVersion md5Hash config)
                \<lparr>requests = map omit_id (requests batch),
                 notifications = map omit_id (notifications batch)\<rparr>"
  have "sent (snd (getLogsAndReport hm md5Hash collector config w)) = sent w @ [?req]"
    using symon batch by (rule getLogsAndReport_request)
  moreover have "config_version (request_body ?req) = configVersion md5Hash config"
    by (simp add: report_request_def)
  ultimately show "\<exists>req. sent (snd (getLogsAndReport hm md5Hash collector config w)) = sent w @ [req] \<and>
            config_version (request_body req) = configVersion md5Hash config"
    by blast
next
  show "version config = Some v \<and> v \<noteq> [] \<longrightarrow> configVersion md5Hash config = v"
    by (simp add: configVersion_def)
next
  show "version config = None \<or> version config = Some [] \<longrightarrow>
            configVersion md5Hash config = md5Hash config"
    by (auto simp: configVersion_def)
qed

theorem report_config_version_witness:
  "symon sample_config = Some sample_symon \<and>
   hm_getUnreportedLogs two_tables (the_store (sample_world empty_store empty_store)) =
     Inr \<lparr>requests = [], notifications = []\<rparr> \<and>
   version sample_config = Some ''1.0.0'' \<and>
   configVersion sample_md5Hash sample_config = ''1.0.0'' \<and>
   version (sample_config\<lparr>version := None\<rparr>) = None \<and>
   configVersion sample_md5Hash (sample_config\<lparr>version := None\<rparr>) =
     sample_md5Hash (sample_config\<lparr>version := None\<rparr>) \<and>
   map (\<lambda>req. config_version (request_body req))
     (sent (snd (getLogsAndReport two_tables sample_md5Hash collector_accepts sample_config
        (sample_world empty_store empty_store)))) = [''1.0.0'']"
proof -
  have s: "symon sample_config = Some sample_symon"
    by (simp add: sample_config_def)
  have s': "symon (sample_config\<lparr>version := None\<rparr>) = Some sample_symon"
    by (simp add: sample_config_def)
  have b: "hm_getUnreportedLogs two_tables (the_store (sample_world empty_store empty_store)) =
     Inr \<lparr>requests = [], notifications = []\<rparr>"
    by (simp add: sample_world_def two_tables_empty)
  have v: "version sample_config = Some ''1.0.0''"
    by (simp add: sample_config_def)
  have n: "version (sample_config\<lparr>version := None\<rparr>) = None"
    by simp
  note t = report_config_version [OF s b, where md5Hash = sample_md5Hash and
             collector = collector_accepts and v = "''1.0.0''"]
  note t' = report_config_version [OF s' b, where md5Hash = sample_md5Hash and
             collector = collector_accepts]
  from t v have cv: "configVersion sample_md5Hash sample_config = ''1.0.0''"
    by simp
  from t obtain req where
    "sent (snd (getLogsAndReport two_tables sample_md5Hash collector_accepts sample_config
        (sample_world empty_store empty_store))) = sent (sample_world empty_store empty_store) @ [req]"
    "config_version (request_body req) = configVersion sample_md5Hash sample_config"
    by blast
  with cv have "map (\<lambda>req. config_version (request_body req))
     (sent (snd (getLogsAndReport two_tables sample_md5Hash collector_accepts sample_config
        (sample_world empty_store empty_store)))) = [''1.0.0'']"
    by (simp add: sample_world_def)
  moreover from t' n have "configVersion sample_md5Hash (sample_config\<lparr>version := None\<rparr>) =
     sample_md5Hash (sample_config\<lparr>version := None\<rparr>)"
    by simp
  ultimately show ?thesis
    using s b v n cv by blast
qed

end
